theory Spec2Isabelle
  imports Main
begin

section \<open>Python values and exceptions\<close>

text \<open>
  The values that flow through \<^verbatim>\<open>kuyruk/task.py\<close> and \<^verbatim>\<open>kuyruk/result.py\<close>:
  call arguments, descriptor fields and decoded JSON replies. An instance of a user class
  is \<open>PyObj c attrs truth\<close>: the name of its class, its instance attributes and the truth
  value Python gives it in a condition. Floating point numbers are left out.
\<close>

datatype pyval =
    PyNone
  | PyBool bool
  | PyInt int
  | PyStr string
  | PyList "pyval list"
  | PyDict "(string \<times> pyval) list"
  | PyObj string "(string \<times> pyval) list" bool

type_synonym pydict = "(string \<times> pyval) list"

text \<open>The truth value of a value in \<^verbatim>\<open>if x:\<close> and \<^verbatim>\<open>x or y\<close>.\<close>

fun truthy :: "pyval \<Rightarrow> bool" where
  "truthy PyNone = False"
| "truthy (PyBool b) = b"
| "truthy (PyInt i) = (i \<noteq> 0)"
| "truthy (PyStr s) = (s \<noteq> [])"
| "truthy (PyList xs) = (xs \<noteq> [])"
| "truthy (PyDict d) = (d \<noteq> [])"
| "truthy (PyObj c attrs b) = b"

text \<open>
  Every exception the two modules raise or let through. \<open>Exception args\<close> is the plain
  \<^verbatim>\<open>Exception(*args)\<close>; \<open>UserError\<close> stands for any other class derived from
  \<^verbatim>\<open>Exception\<close>; \<open>SystemExiting\<close> stands for the classes that derive from
  \<^verbatim>\<open>BaseException\<close> only (\<^verbatim>\<open>KeyboardInterrupt\<close>, \<^verbatim>\<open>SystemExit\<close>,
  \<^verbatim>\<open>GeneratorExit\<close>), which \<^verbatim>\<open>except Exception\<close> does not catch.
\<close>

datatype pyexc =
    Exception "pyval list"
  | AttributeError string
  | IndexError
  | KeyError string
  | TypeError
  | Timeout
  | ResultTimeout
  | RemoteException pyval pyval pyval
  | socket_timeout
  | socket_error int
  | UserError string
  | SystemExiting string

text \<open>
  Modelled from the spec: \<^verbatim>\<open>kuyruk.exceptions\<close> is not among the sources. The spec has
  the failure event fire with the deadline condition as its cause, so \<open>Timeout\<close>, like
  \<open>ResultTimeout\<close> and \<open>RemoteException\<close>, derives from \<^verbatim>\<open>Exception\<close>.
\<close>

fun is_Exception :: "pyexc \<Rightarrow> bool" where
  "is_Exception (SystemExiting n) = False"
| "is_Exception e = True"

section \<open>Tasks, the environment and observable effects\<close>

text \<open>
  \<open>f_call\<close> is the wrapped function \<^verbatim>\<open>self.f\<close>: from the positional and keyword
  arguments to the seconds it runs for and its outcome (an exception or a return value).
  \<open>cls\<close> is the class object the task was last reached through, \<open>task_class\<close> is
  \<^verbatim>\<open>self.__class__\<close>, the class of the task object itself.
\<close>

text \<open>
  A class object: what tells it from every other class, and its \<^verbatim>\<open>__name__\<close>. Two
  classes may have the same \<^verbatim>\<open>__name__\<close>.
\<close>

datatype pyclass = PyClass nat string

fun dunder_name :: "pyclass \<Rightarrow> string" where
  "dunder_name (PyClass i n) = n"

record task =
  f_call :: "pyval list \<Rightarrow> pydict \<Rightarrow> nat \<times> (pyexc + pyval)"
  f_name :: string
  f_module :: string
  queue :: string
  local :: bool
  eager :: bool
  retry :: int
  max_run_time :: "nat option"
  cls :: "pyclass option"
  task_class :: pyclass

datatype signal =
    task_presend | task_postsend | task_prerun | task_postrun | task_success | task_failure

datatype sender = SenderSelf | SenderClass pyclass | SenderKuyruk

datatype extra = NoExtra | exc_info pyexc | return_value pyval

text \<open>One call of \<^verbatim>\<open>signal.send(sender, task=self, args=args, kwargs=kwargs, **extra)\<close>.\<close>

datatype delivery = Delivery signal sender "pyval list" pydict extra

text \<open>
  What an invocation does to the outside world, in order: signals sent, the wrapped function
  called, the alarm set, the channel opened and closed, a descriptor sent to a queue
  (\<^verbatim>\<open>Queue(queue, channel, local_)\<close> followed by \<^verbatim>\<open>queue.send(desc)\<close>).
\<close>

datatype effect =
    Sent delivery
  | Called "pyval list" pydict
  | Alarm nat
  | ChannelOpen
  | ChannelClose
  | QueueSend string bool pydict

text \<open>
  The collaborators that are not among the sources are parameters: the configuration, the
  receivers connected to the signals (\<open>receivers\<close> tells whether a delivery raises), the
  name \<^verbatim>\<open>Queue\<close> gives a queue, the channel and the send (which may fail), and the values
  read from the process (\<^verbatim>\<open>uuid1().hex\<close>, \<^verbatim>\<open>datetime.utcnow()\<close>,
  \<^verbatim>\<open>socket.gethostname()\<close>, \<^verbatim>\<open>os.getpid()\<close>, \<^verbatim>\<open>' '.join(sys.argv)\<close>,
  \<^verbatim>\<open>importer.get_main_module().name\<close>), and what \<^verbatim>\<open>"%s"\<close> prints for a value that
  is not a string (\<open>str_other\<close>).
\<close>

record env =
  EAGER :: bool
  MAX_TASK_RUN_TIME :: "nat option"
  receivers :: "delivery \<Rightarrow> pyexc option"
  queue_name :: "string \<Rightarrow> bool \<Rightarrow> string"
  channel_error :: "pyexc option"
  send_error :: "pyexc option"
  uuid1_hex :: string
  utcnow :: pyval
  gethostname :: string
  getpid :: int
  sender_cmd :: string
  main_module_name :: string
  str_other :: "pyval \<Rightarrow> string"

section \<open>Task.send\_signal\<close>

definition senders :: "task \<Rightarrow> bool \<Rightarrow> sender list" where
  "senders t reverse =
     (let s = [SenderSelf, SenderClass (task_class t), SenderKuyruk]
      in if reverse then rev s else s)"

text \<open>The loop over the senders: a receiver that raises ends it.\<close>

fun send_each ::
  "env \<Rightarrow> signal \<Rightarrow> pyval list \<Rightarrow> pydict \<Rightarrow> extra \<Rightarrow> sender list \<Rightarrow> effect list
     \<Rightarrow> pyexc option \<times> effect list" where
  "send_each E sg args kwargs x [] tr = (None, tr)"
| "send_each E sg args kwargs x (s # ss) tr =
     (let d = Delivery sg s args kwargs x in
      case receivers E d of
        Some err \<Rightarrow> (Some err, tr @ [Sent d])
      | None \<Rightarrow> send_each E sg args kwargs x ss (tr @ [Sent d]))"

definition send_signal ::
  "env \<Rightarrow> task \<Rightarrow> signal \<Rightarrow> pyval list \<Rightarrow> pydict \<Rightarrow> bool \<Rightarrow> extra \<Rightarrow> effect list
     \<Rightarrow> pyexc option \<times> effect list" where
  "send_signal E t sg args kwargs reverse x tr =
     send_each E sg args kwargs x (senders t reverse) tr"

section \<open>time\_limit and Task.apply\<close>

text \<open>
  \<^verbatim>\<open>with time_limit(seconds): return_value = self.f(*args, **kwargs)\<close>. The alarm is
  set, the function is called, and the alarm is cleared on the way out. The alarm goes off,
  raising \<open>Timeout\<close> inside the call, when it is set (\<open>seconds\<close> is not 0) and the function
  needs more than \<open>seconds\<close> seconds.
\<close>

definition time_limit ::
  "nat \<Rightarrow> task \<Rightarrow> pyval list \<Rightarrow> pydict \<Rightarrow> effect list \<Rightarrow> (pyexc + pyval) \<times> effect list" where
  "time_limit seconds t args kwargs tr =
     (let run = f_call t args kwargs;
          outcome = (if seconds \<noteq> 0 \<and> seconds < fst run then Inl Timeout else snd run)
      in (outcome, tr @ [Alarm seconds, Called args kwargs, Alarm 0]))"

text \<open>\<^verbatim>\<open>self.max_run_time or self.kuyruk.config.MAX_TASK_RUN_TIME or 0\<close>\<close>

definition limit :: "env \<Rightarrow> task \<Rightarrow> nat" where
  "limit E t =
     (case max_run_time t of
        Some n \<Rightarrow> if n \<noteq> 0 then n
                  else (case MAX_TASK_RUN_TIME E of Some m \<Rightarrow> m | None \<Rightarrow> 0)
      | None \<Rightarrow> (case MAX_TASK_RUN_TIME E of Some m \<Rightarrow> m | None \<Rightarrow> 0))"

text \<open>The \<^verbatim>\<open>finally\<close> clause: \<open>pending\<close> is what the statement was about to do.\<close>

definition apply_finally ::
  "env \<Rightarrow> task \<Rightarrow> pyval list \<Rightarrow> pydict \<Rightarrow> pyexc + pyval \<Rightarrow> effect list
     \<Rightarrow> (pyexc + pyval) \<times> effect list" where
  "apply_finally E t args kwargs pending tr =
     (case send_signal E t task_postrun args kwargs False NoExtra tr of
        (Some err, tr') \<Rightarrow> (Inl err, tr')
      | (None, tr') \<Rightarrow> (pending, tr'))"

text \<open>
  An exception leaving the \<^verbatim>\<open>try\<close> block: \<^verbatim>\<open>except Exception\<close> sends the failure
  signal and raises again; an exception of another kind goes straight to \<^verbatim>\<open>finally\<close>.
\<close>

definition apply_except ::
  "env \<Rightarrow> task \<Rightarrow> pyval list \<Rightarrow> pydict \<Rightarrow> pyexc \<Rightarrow> effect list
     \<Rightarrow> (pyexc + pyval) \<times> effect list" where
  "apply_except E t args kwargs e tr =
     (if is_Exception e then
        (case send_signal E t task_failure args kwargs False (exc_info e) tr of
           (Some err, tr') \<Rightarrow> apply_finally E t args kwargs (Inl err) tr'
         | (None, tr') \<Rightarrow> apply_finally E t args kwargs (Inl e) tr')
      else apply_finally E t args kwargs (Inl e) tr)"

text \<open>
  The \<^verbatim>\<open>else\<close> clause. The function has no \<^verbatim>\<open>return\<close> statement: when nothing is
  raised it returns \<^verbatim>\<open>None\<close>, not \<^verbatim>\<open>return_value\<close>.
\<close>

definition apply_else ::
  "env \<Rightarrow> task \<Rightarrow> pyval list \<Rightarrow> pydict \<Rightarrow> pyval \<Rightarrow> effect list
     \<Rightarrow> (pyexc + pyval) \<times> effect list" where
  "apply_else E t args kwargs rv tr =
     (case send_signal E t task_success args kwargs False (return_value rv) tr of
        (Some err, tr') \<Rightarrow> apply_finally E t args kwargs (Inl err) tr'
      | (None, tr') \<Rightarrow> apply_finally E t args kwargs (Inr PyNone) tr')"

text \<open>
  The decorator \<^verbatim>\<open>profile\<close> returns what the function it wraps returns and lets its
  exceptions through; the time it measures and the line it logs are not modelled.
\<close>

definition profile ::
  "(effect list \<Rightarrow> (pyexc + pyval) \<times> effect list) \<Rightarrow> effect list
     \<Rightarrow> (pyexc + pyval) \<times> effect list" where
  "profile g tr = (case g tr of (result, tr') \<Rightarrow> (result, tr'))"

definition apply_inner ::
  "env \<Rightarrow> task \<Rightarrow> pyval list \<Rightarrow> pydict \<Rightarrow> effect list \<Rightarrow> (pyexc + pyval) \<times> effect list" where
  "apply_inner E t args kwargs tr =
     (case send_signal E t task_prerun args kwargs True NoExtra tr of
        (Some err, tr1) \<Rightarrow> apply_except E t args kwargs err tr1
      | (None, tr1) \<Rightarrow>
          (case time_limit (limit E t) t args kwargs tr1 of
             (Inl err, tr2) \<Rightarrow> apply_except E t args kwargs err tr2
           | (Inr rv, tr2) \<Rightarrow> apply_else E t args kwargs rv tr2))"

definition task_apply ::
  "env \<Rightarrow> task \<Rightarrow> pyval list \<Rightarrow> pydict \<Rightarrow> effect list \<Rightarrow> (pyexc + pyval) \<times> effect list" where
  "task_apply E t args kwargs = profile (apply_inner E t args kwargs)"

section \<open>Names and the descriptor\<close>

text \<open>\<^verbatim>\<open>Task.class_name\<close>: \<^verbatim>\<open>self.cls.__name__\<close>, or \<^verbatim>\<open>None\<close>.\<close>

definition class_name :: "task \<Rightarrow> string option" where
  "class_name t = (case cls t of Some c \<Rightarrow> Some (dunder_name c) | None \<Rightarrow> None)"

definition module_name_of :: "env \<Rightarrow> task \<Rightarrow> string" where
  "module_name_of E t =
     (let name = f_module t in
      if name = ''__main__'' then main_module_name E else name)"

text \<open>
  \<^verbatim>\<open>Task.name\<close>. The test \<^verbatim>\<open>if self.class_name:\<close> is one of truth: a class whose
  name is the empty string counts as no class.
\<close>

definition name :: "env \<Rightarrow> task \<Rightarrow> string" where
  "name E t =
     (case class_name t of
        Some c \<Rightarrow>
          if c \<noteq> [] then module_name_of E t @ '':'' @ c @ ''.'' @ f_name t
          else module_name_of E t @ '':'' @ f_name t
      | None \<Rightarrow> module_name_of E t @ '':'' @ f_name t)"

text \<open>
  \<^verbatim>\<open>Task.__get__(self, obj, objtype)\<close>: the access \<^verbatim>\<open>x.task\<close> on an instance
  (\<open>obj = Some x\<close>, \<open>objtype\<close> the class of \<open>x\<close>) or \<^verbatim>\<open>C.task\<close> on a class
  (\<open>obj = None\<close>). It assigns \<^verbatim>\<open>self.cls\<close> and returns the task, together with the
  object its \<^verbatim>\<open>__call__\<close> is bound to when \<^verbatim>\<open>obj\<close> is true.
\<close>

definition get :: "task \<Rightarrow> pyval option \<Rightarrow> pyclass \<Rightarrow> task \<times> pyval option" where
  "get t obj objtype =
     (let t' = t\<lparr>cls := Some objtype\<rparr> in
      case obj of
        Some x \<Rightarrow> if truthy x then (t', Some x) else (t', None)
      | None \<Rightarrow> (t', None))"

text \<open>Calling what \<open>get\<close> returned puts the bound object in front of the arguments.\<close>

definition bound_args :: "pyval option \<Rightarrow> pyval list \<Rightarrow> pyval list" where
  "bound_args obj args = (case obj of Some x \<Rightarrow> x # args | None \<Rightarrow> args)"

text \<open>The attribute read \<^verbatim>\<open>x.id\<close>.\<close>

fun getattr_id :: "pyval \<Rightarrow> pyexc + pyval" where
  "getattr_id (PyObj c attrs b) =
     (case map_of attrs ''id'' of Some v \<Rightarrow> Inr v | None \<Rightarrow> Inl (AttributeError ''id''))"
| "getattr_id v = Inl (AttributeError ''id'')"

text \<open>
  \<^verbatim>\<open>Task.get_task_description\<close>. With \<^verbatim>\<open>self.cls\<close> set, the first argument is
  replaced by its \<^verbatim>\<open>id\<close>: \<^verbatim>\<open>args[0]\<close> raises \<^verbatim>\<open>IndexError\<close> on no arguments,
  \<^verbatim>\<open>.id\<close> raises \<^verbatim>\<open>AttributeError\<close> on a value without one. The dictionary always
  has the twelve keys; \<^verbatim>\<open>'class'\<close> holds \<^verbatim>\<open>None\<close> when there is no class.
\<close>

definition replace_first :: "task \<Rightarrow> pyval list \<Rightarrow> pyexc + pyval list" where
  "replace_first t args =
     (case cls t of
        None \<Rightarrow> Inr args
      | Some c \<Rightarrow>
          (case args of
             [] \<Rightarrow> Inl IndexError
           | a # as \<Rightarrow>
               (case getattr_id a of Inl err \<Rightarrow> Inl err | Inr i \<Rightarrow> Inr (args[0 := i]))))"

definition get_task_description ::
  "env \<Rightarrow> task \<Rightarrow> pyval list \<Rightarrow> pydict \<Rightarrow> string \<Rightarrow> pyexc + pydict" where
  "get_task_description E t args kwargs q =
     (case replace_first t args of
        Inl err \<Rightarrow> Inl err
      | Inr args' \<Rightarrow>
          Inr [(''id'', PyStr (uuid1_hex E)),
               (''queue'', PyStr q),
               (''args'', PyList args'),
               (''kwargs'', PyDict kwargs),
               (''module'', PyStr (module_name_of E t)),
               (''function'', PyStr (f_name t)),
               (''class'', (case class_name t of Some c \<Rightarrow> PyStr c | None \<Rightarrow> PyNone)),
               (''retry'', PyInt (retry t)),
               (''sender_timestamp'', utcnow E),
               (''sender_hostname'', PyStr (gethostname E)),
               (''sender_pid'', PyInt (getpid E)),
               (''sender_cmd'', PyStr (sender_cmd E))])"

section \<open>Task.send\_to\_queue and Task.\_\_call\_\_\<close>

text \<open>
  The formatting \<^verbatim>\<open>"%s" % host\<close> gives a string back as it is.
\<close>

definition percent_s :: "env \<Rightarrow> pyval \<Rightarrow> string" where
  "percent_s E v = (case v of PyStr s \<Rightarrow> s | _ \<Rightarrow> str_other E v)"

text \<open>
  The first lines of \<^verbatim>\<open>send_to_queue\<close>: the name and the flag handed to
  \<^verbatim>\<open>Queue(queue, channel, local_)\<close>. \<open>host\<close> and \<open>local_arg\<close> are the keyword
  parameters, \<open>PyNone\<close> when not given.
\<close>

definition resolve_queue ::
  "env \<Rightarrow> task \<Rightarrow> pyval \<Rightarrow> pyval \<Rightarrow> string \<times> pyval" where
  "resolve_queue E t host local_arg =
     (let queue0 = queue t;
          local0 = PyBool (local t);
          local1 = (if local_arg \<noteq> PyNone then local_arg else local0)
      in if truthy host
         then (queue t @ ''.'' @ percent_s E host, PyBool False)
         else (queue0, local1))"

text \<open>\<^verbatim>\<open>desc['id']\<close>\<close>

definition desc_id :: "pydict \<Rightarrow> pyval" where
  "desc_id desc = (case map_of desc ''id'' of Some v \<Rightarrow> v | None \<Rightarrow> PyNone)"

definition send_to_queue ::
  "env \<Rightarrow> task \<Rightarrow> pyval list \<Rightarrow> pydict \<Rightarrow> pyval \<Rightarrow> pyval \<Rightarrow> effect list
     \<Rightarrow> (pyexc + pyval) \<times> effect list" where
  "send_to_queue E t args kwargs host local_arg tr =
     (case resolve_queue E t host local_arg of
        (q, local_) \<Rightarrow>
          (case channel_error E of
             Some err \<Rightarrow> (Inl err, tr)
           | None \<Rightarrow>
               (case get_task_description E t args kwargs (queue_name E q (truthy local_)) of
                  Inl err \<Rightarrow> (Inl err, tr @ [ChannelOpen, ChannelClose])
                | Inr desc \<Rightarrow>
                    (case send_error E of
                       Some err \<Rightarrow>
                         (Inl err, tr @ [ChannelOpen, QueueSend q (truthy local_) desc, ChannelClose])
                     | None \<Rightarrow>
                         (Inr (desc_id desc),
                          tr @ [ChannelOpen, QueueSend q (truthy local_) desc, ChannelClose])))))"

text \<open>\<^verbatim>\<open>kwargs.pop(key, None)\<close>: the value under the key, and the dictionary without it.\<close>

definition pop :: "pydict \<Rightarrow> string \<Rightarrow> pyval \<times> pydict" where
  "pop kwargs key =
     ((case map_of kwargs key of Some v \<Rightarrow> v | None \<Rightarrow> PyNone),
      filter (\<lambda>kv. fst kv \<noteq> key) kwargs)"

text \<open>
  \<^verbatim>\<open>TaskResult\<close>: \<open>the_task\<close> is the attribute \<^verbatim>\<open>task\<close> set by \<^verbatim>\<open>__init__\<close>,
  \<open>instance_dict\<close> holds the attributes assigned afterwards (\<^verbatim>\<open>result\<close> or \<^verbatim>\<open>id\<close>).
\<close>

record task_result =
  the_task :: task
  instance_dict :: pydict

definition TaskResult :: "task \<Rightarrow> task_result" where
  "TaskResult t = \<lparr>the_task = t, instance_dict = []\<rparr>"

definition setattr :: "task_result \<Rightarrow> string \<Rightarrow> pyval \<Rightarrow> task_result" where
  "setattr r key v =
     r\<lparr>instance_dict := (key, v) # filter (\<lambda>kv. fst kv \<noteq> key) (instance_dict r)\<rparr>"

text \<open>The last two statements of \<^verbatim>\<open>__call__\<close>.\<close>

definition call_postsend ::
  "env \<Rightarrow> task \<Rightarrow> pyval list \<Rightarrow> pydict \<Rightarrow> task_result \<Rightarrow> effect list
     \<Rightarrow> (pyexc + task_result) \<times> effect list" where
  "call_postsend E t args kwargs r tr =
     (case send_signal E t task_postsend args kwargs False NoExtra tr of
        (Some err, tr') \<Rightarrow> (Inl err, tr')
      | (None, tr') \<Rightarrow> (Inr r, tr'))"

text \<open>
  \<^verbatim>\<open>Task.__call__\<close>. On the queued path the two routing keys are popped from
  \<^verbatim>\<open>kwargs\<close>, so the descriptor and the post-send signal see the dictionary without them.
\<close>

definition call ::
  "env \<Rightarrow> task \<Rightarrow> pyval list \<Rightarrow> pydict \<Rightarrow> effect list
     \<Rightarrow> (pyexc + task_result) \<times> effect list" where
  "call E t args kwargs tr =
     (case send_signal E t task_presend args kwargs True NoExtra tr of
        (Some err, tr1) \<Rightarrow> (Inl err, tr1)
      | (None, tr1) \<Rightarrow>
          (let r = TaskResult t in
           if eager t \<or> EAGER E then
             (case task_apply E t args kwargs tr1 of
                (Inl err, tr2) \<Rightarrow> (Inl err, tr2)
              | (Inr v, tr2) \<Rightarrow> call_postsend E t args kwargs (setattr r ''result'' v) tr2)
           else
             (case pop kwargs ''kuyruk_host'' of
                (host, kwargs1) \<Rightarrow>
                  (case pop kwargs1 ''kuyruk_local'' of
                     (local_arg, kwargs2) \<Rightarrow>
                       (case send_to_queue E t args kwargs2 host local_arg tr1 of
                          (Inl err, tr2) \<Rightarrow> (Inl err, tr2)
                        | (Inr i, tr2) \<Rightarrow>
                            call_postsend E t args kwargs2 (setattr r ''id'' i) tr2)))))"

section \<open>Reading a TaskResult\<close>

datatype attribute = TaskAttr task | ValueAttr pyval | ClassAttr string

text \<open>
  The names the ordinary lookup finds on the class: those of the class body and those
  every new-style class inherits from \<^verbatim>\<open>object\<close>.
\<close>

definition class_attrs :: "string list" where
  "class_attrs =
     [''__init__'', ''__getattr__'', ''__getitem__'', ''__setitem__'', ''__repr__'', ''__str__'',
      ''__class__'', ''__dict__'', ''__doc__'', ''__module__'', ''__weakref__'', ''__new__'',
      ''__delattr__'', ''__setattr__'', ''__getattribute__'', ''__format__'', ''__hash__'',
      ''__reduce__'', ''__reduce_ex__'', ''__sizeof__'', ''__subclasshook__'']"

text \<open>
  The attribute read \<^verbatim>\<open>r.item\<close>. \<^verbatim>\<open>__getattr__\<close> is a fallback: Python calls it
  only when the ordinary lookup finds nothing, and it raises \<^verbatim>\<open>Exception(item)\<close>.
\<close>

definition getattr :: "task_result \<Rightarrow> string \<Rightarrow> pyexc + attribute" where
  "getattr r item =
     (if item = ''task'' then Inr (TaskAttr (the_task r))
      else case map_of (instance_dict r) item of
             Some v \<Rightarrow> Inr (ValueAttr v)
           | None \<Rightarrow>
               if item \<in> set class_attrs then Inr (ClassAttr item)
               else Inl (Exception [PyStr item]))"

text \<open>The item read \<^verbatim>\<open>r[item]\<close>: \<^verbatim>\<open>__getitem__\<close> raises \<^verbatim>\<open>Exception(item)\<close>.\<close>

definition getitem :: "task_result \<Rightarrow> pyval \<Rightarrow> pyexc + pyval" where
  "getitem r item = Inl (Exception [item])"

section \<open>Result.wait\<close>

text \<open>
  The attributes \<^verbatim>\<open>self.result\<close> and \<^verbatim>\<open>self.exception\<close> of a \<^verbatim>\<open>Result\<close>:
  \<open>None\<close> while the attribute has not been assigned, when reading it raises
  \<^verbatim>\<open>AttributeError\<close>.
\<close>

record result_state =
  result :: "pyval option"
  exception :: "pyval option"

definition Result :: result_state where
  "Result = \<lparr>result = None, exception = None\<rparr>"

text \<open>
  The subscript \<^verbatim>\<open>v[key]\<close> with a string key: a dictionary gives the value or raises
  \<^verbatim>\<open>KeyError\<close>, any other decoded value raises \<^verbatim>\<open>TypeError\<close>.
\<close>

fun subscript :: "pyval \<Rightarrow> string \<Rightarrow> pyexc + pyval" where
  "subscript (PyDict d) key =
     (case map_of d key of Some v \<Rightarrow> Inr v | None \<Rightarrow> Inl (KeyError key))"
| "subscript v key = Inl TypeError"

text \<open>\<^verbatim>\<open>d.get(key)\<close> on a dictionary.\<close>

definition dict_get :: "pydict \<Rightarrow> string \<Rightarrow> pyval" where
  "dict_get d key = (case map_of d key of Some v \<Rightarrow> v | None \<Rightarrow> PyNone)"

text \<open>
  \<^verbatim>\<open>Result._process_message\<close> on the decoded body \<open>d\<close>: \<^verbatim>\<open>d['result']\<close> comes
  first, so a body without that key raises before anything is assigned.
\<close>

definition process_message :: "result_state \<Rightarrow> pyval \<Rightarrow> pyexc + result_state" where
  "process_message st d =
     (case subscript d ''result'' of
        Inl err \<Rightarrow> Inl err
      | Inr r \<Rightarrow>
          (case d of
             PyDict kvs \<Rightarrow> Inr (st\<lparr>result := Some r, exception := Some (dict_get kvs ''exception'')\<rparr>)
           | _ \<Rightarrow> Inl (AttributeError ''get'')))"

text \<open>
  The first \<^verbatim>\<open>try\<close> of the loop: \<open>None\<close> when \<^verbatim>\<open>AttributeError\<close> was caught
  (nothing received yet), otherwise what \<^verbatim>\<open>wait\<close> raises or returns.
\<close>

definition outcome :: "result_state \<Rightarrow> (pyexc + pyval) option" where
  "outcome st =
     (case exception st of
        None \<Rightarrow> None
      | Some ex \<Rightarrow>
          if truthy ex then
            (case subscript ex ''type'' of
               Inl err \<Rightarrow> Some (Inl err)
             | Inr ty \<Rightarrow>
                 (case subscript ex ''value'' of
                    Inl err \<Rightarrow> Some (Inl err)
                  | Inr va \<Rightarrow>
                      (case subscript ex ''traceback'' of
                         Inl err \<Rightarrow> Some (Inl err)
                       | Inr tb \<Rightarrow> Some (Inl (RemoteException ty va tb)))))
          else (case result st of None \<Rightarrow> None | Some r \<Rightarrow> Some (Inr r)))"

text \<open>
  What one call of \<^verbatim>\<open>drain_events(timeout=1)\<close> does: it hands a decoded reply to
  \<^verbatim>\<open>_process_message\<close>, returns with nothing for this waiter, raises
  \<^verbatim>\<open>socket.timeout\<close> (the clock then reads \<open>now\<close>), or raises \<^verbatim>\<open>socket.error\<close>
  with an \<^verbatim>\<open>errno\<close>.
\<close>

datatype drained = Reply pyval | Idle | SliceTimeout int | SocketError int

definition EINTR :: int where
  "EINTR = 4"

text \<open>
  \<^verbatim>\<open>Result.wait(timeout)\<close>, started when the clock read \<open>start\<close>, against the list
  of what the successive calls of \<^verbatim>\<open>drain_events\<close> do. The clock counts in whole
  ticks. \<open>None\<close>: the list is used up and the loop is still waiting.
\<close>

fun wait :: "int \<Rightarrow> int \<Rightarrow> result_state \<Rightarrow> drained list \<Rightarrow> (pyexc + pyval) option" where
  "wait start timeout st evs =
     (case outcome st of
        Some r \<Rightarrow> Some r
      | None \<Rightarrow>
          (case evs of
             [] \<Rightarrow> None
           | Reply d # rest \<Rightarrow>
               (case process_message st d of
                  Inl err \<Rightarrow> Some (Inl err)
                | Inr st' \<Rightarrow> wait start timeout st' rest)
           | Idle # rest \<Rightarrow> wait start timeout st rest
           | SliceTimeout now # rest \<Rightarrow>
               if now - start > timeout then Some (Inl ResultTimeout)
               else wait start timeout st rest
           | SocketError errno # rest \<Rightarrow>
               if errno \<noteq> EINTR then Some (Inl (socket_error errno))
               else wait start timeout st rest))"

section \<open>Reading the trace\<close>

text \<open>The signals of a trace, each with the sender it went to.\<close>

definition sent :: "effect list \<Rightarrow> (signal \<times> sender) list" where
  "sent tr = concat (map (\<lambda>e. case e of Sent (Delivery sg s a k x) \<Rightarrow> [(sg, s)] | _ \<Rightarrow> []) tr)"

text \<open>The deliveries of a broadcast in which no receiver raises.\<close>

definition broadcast ::
  "task \<Rightarrow> signal \<Rightarrow> pyval list \<Rightarrow> pydict \<Rightarrow> bool \<Rightarrow> extra \<Rightarrow> effect list" where
  "broadcast t sg args kwargs reverse x =
     map (\<lambda>s. Sent (Delivery sg s args kwargs x)) (senders t reverse)"

text \<open>What the post-run broadcast of \<^verbatim>\<open>Task.apply\<close> adds to the trace.\<close>

definition postrun_sends :: "env \<Rightarrow> task \<Rightarrow> pyval list \<Rightarrow> pydict \<Rightarrow> effect list" where
  "postrun_sends E t args kwargs = snd (send_signal E t task_postrun args kwargs False NoExtra [])"

text \<open>How the call of the wrapped function ends under the limit of the task.\<close>

definition body_outcome :: "env \<Rightarrow> task \<Rightarrow> pyval list \<Rightarrow> pydict \<Rightarrow> pyexc + pyval" where
  "body_outcome E t args kwargs = fst (time_limit (limit E t) t args kwargs [])"

text \<open>The calls of the wrapped function and the descriptors sent, as a trace shows them.\<close>

definition called :: "effect list \<Rightarrow> (pyval list \<times> pydict) list" where
  "called tr = concat (map (\<lambda>e. case e of Called a k \<Rightarrow> [(a, k)] | _ \<Rightarrow> []) tr)"

definition queue_sends :: "effect list \<Rightarrow> (string \<times> bool \<times> pydict) list" where
  "queue_sends tr = concat (map (\<lambda>e. case e of QueueSend q l d \<Rightarrow> [(q, l, d)] | _ \<Rightarrow> []) tr)"

text \<open>The keyword arguments without the two routing keys.\<close>

definition without_routing :: "pydict \<Rightarrow> pydict" where
  "without_routing kwargs =
     filter (\<lambda>kv. fst kv \<noteq> ''kuyruk_host'' \<and> fst kv \<noteq> ''kuyruk_local'') kwargs"

text \<open>
  What \<^verbatim>\<open>Result.wait\<close> loops on without failing: a call of \<^verbatim>\<open>drain_events\<close> that
  brings nothing, a slice timeout while the deadline has not passed, an interrupted call.
\<close>

definition harmless :: "int \<Rightarrow> int \<Rightarrow> drained \<Rightarrow> bool" where
  "harmless start timeout ev =
     (case ev of
        Reply d \<Rightarrow> False
      | Idle \<Rightarrow> True
      | SliceTimeout now \<Rightarrow> now - start \<le> timeout
      | SocketError errno \<Rightarrow> errno = EINTR)"



section \<open>Examples\<close>

text \<open>An environment in which nothing fails and no receiver raises, and a plain task.\<close>

definition quiet_env :: env where
  "quiet_env =
     \<lparr>EAGER = False, MAX_TASK_RUN_TIME = None, receivers = (\<lambda>d. None),
      queue_name = (\<lambda>q l. if l then q @ ''.worker1'' else q),
      channel_error = None, send_error = None, uuid1_hex = ''0f3a'',
      utcnow = PyStr ''2013-01-01 00:00:00'', gethostname = ''worker1'', getpid = 4242,
      sender_cmd = ''python app.py'', main_module_name = ''app'',
      str_other = (\<lambda>v. ''?'')\<rparr>"

definition example_task :: "(pyval list \<Rightarrow> pydict \<Rightarrow> nat \<times> (pyexc + pyval)) \<Rightarrow> task" where
  "example_task body =
     \<lparr>f_call = body, f_name = ''echo'', f_module = ''tasks'', queue = ''kuyruk'',
      local = False, eager = False, retry = 0, max_run_time = None, cls = None,
      task_class = PyClass 0 ''Task''\<rparr>"

definition returns_42 :: "pyval list \<Rightarrow> pydict \<Rightarrow> nat \<times> (pyexc + pyval)" where
  "returns_42 args kwargs = (0, Inr (PyInt 42))"

definition raises_ValueError :: "pyval list \<Rightarrow> pydict \<Rightarrow> nat \<times> (pyexc + pyval)" where
  "raises_ValueError args kwargs = (0, Inl (UserError ''ValueError''))"

definition raises_SystemExit :: "pyval list \<Rightarrow> pydict \<Rightarrow> nat \<times> (pyexc + pyval)" where
  "raises_SystemExit args kwargs = (0, Inl (SystemExiting ''SystemExit''))"

definition sleeps_10 :: "pyval list \<Rightarrow> pydict \<Rightarrow> nat \<times> (pyexc + pyval)" where
  "sleeps_10 args kwargs = (10, Inr PyNone)"

text \<open>
  Receivers of which the one connected to the failure signal for the task itself raises.
\<close>

definition failure_receiver_raises :: "delivery \<Rightarrow> pyexc option" where
  "failure_receiver_raises d =
     (case d of
        Delivery sg s args kwargs x \<Rightarrow>
          if sg = task_failure \<and> s = SenderSelf then Some (UserError ''HandlerError'')
          else None)"

section \<open>Signals: the trace only grows, one signal at a time\<close>

lemma sent_append: "sent (a @ b) = sent a @ sent b"
  by (simp add: sent_def)

lemma send_each_append:
  "send_each E sg a k x ss tr = (fst (send_each E sg a k x ss []), tr @ snd (send_each E sg a k x ss []))"
proof (induction ss arbitrary: tr)
  case Nil
  show ?case by simp
next
  case (Cons s ss)
  show ?case
  proof (cases "receivers E (Delivery sg s a k x)")
    case None
    then show ?thesis
      using Cons [of "tr @ [Sent (Delivery sg s a k x)]"] Cons [of "[Sent (Delivery sg s a k x)]"]
      by simp
  next
    case (Some err)
    then show ?thesis by simp
  qed
qed

lemma send_each_signals:
  "fst ` set (sent (snd (send_each E sg a k x ss []))) \<subseteq> {sg}"
proof (induction ss)
  case Nil
  show ?case by (simp add: sent_def)
next
  case (Cons s ss)
  show ?case
  proof (cases "receivers E (Delivery sg s a k x)")
    case None
    then show ?thesis
      using Cons send_each_append [of E sg a k x ss "[Sent (Delivery sg s a k x)]"]
      by (simp add: sent_append) (simp add: sent_def)
  next
    case (Some err)
    then show ?thesis by (simp add: sent_def)
  qed
qed

lemma send_each_quiet:
  "\<forall>d. receivers E d = None \<Longrightarrow>
   send_each E sg a k x ss tr = (None, tr @ map (\<lambda>s. Sent (Delivery sg s a k x)) ss)"
  by (induction ss arbitrary: tr) simp_all

lemma send_signal_append:
  "send_signal E t sg a k r x tr =
     (fst (send_signal E t sg a k r x []), tr @ snd (send_signal E t sg a k r x []))"
  unfolding send_signal_def by (rule send_each_append)

lemma send_signal_signals:
  "fst ` set (sent (snd (send_signal E t sg a k r x []))) \<subseteq> {sg}"
  unfolding send_signal_def by (rule send_each_signals)

lemma apply_finally_trace:
  "snd (apply_finally E t a k p tr) = tr @ postrun_sends E t a k"
  unfolding apply_finally_def postrun_sends_def
  by (subst send_signal_append) (simp split: option.splits)

lemma apply_except_trace:
  "\<exists>pre. snd (apply_except E t a k e tr) = tr @ pre @ postrun_sends E t a k
     \<and> fst ` set (sent pre) \<subseteq> {task_failure}"
proof (cases "is_Exception e")
  case False
  then have "snd (apply_except E t a k e tr) = tr @ [] @ postrun_sends E t a k"
    by (simp add: apply_except_def apply_finally_trace)
  moreover have "fst ` set (sent []) \<subseteq> {task_failure}" by (simp add: sent_def)
  ultimately show ?thesis by blast
next
  case True
  let ?f = "snd (send_signal E t task_failure a k False (exc_info e) [])"
  have "snd (apply_except E t a k e tr) = tr @ ?f @ postrun_sends E t a k"
    using True unfolding apply_except_def
    by (subst send_signal_append) (simp add: apply_finally_trace split: option.splits)
  then show ?thesis using send_signal_signals by blast
qed

lemma apply_else_trace:
  "\<exists>pre. snd (apply_else E t a k v tr) = tr @ pre @ postrun_sends E t a k
     \<and> fst ` set (sent pre) \<subseteq> {task_success}"
proof -
  let ?f = "snd (send_signal E t task_success a k False (return_value v) [])"
  have "snd (apply_else E t a k v tr) = tr @ ?f @ postrun_sends E t a k"
    unfolding apply_else_def
    by (subst send_signal_append) (simp add: apply_finally_trace split: option.splits)
  then show ?thesis using send_signal_signals by blast
qed

lemma sent_alarm:
  "sent (Alarm n # tr) = sent tr" "sent (Called a k # tr) = sent tr"
  by (simp_all add: sent_def)

lemma apply_inner_trace:
  "\<exists>pre. snd (apply_inner E t a k tr) = tr @ pre @ postrun_sends E t a k
     \<and> task_postrun \<notin> fst ` set (sent pre)"
proof -
  let ?p = "snd (send_signal E t task_prerun a k True NoExtra [])"
  have p: "fst ` set (sent ?p) \<subseteq> {task_prerun}" by (rule send_signal_signals)
  show ?thesis
  proof (cases "fst (send_signal E t task_prerun a k True NoExtra [])")
    case (Some err)
    obtain pre where pre: "snd (apply_except E t a k err (tr @ ?p)) = (tr @ ?p) @ pre @ postrun_sends E t a k"
        "fst ` set (sent pre) \<subseteq> {task_failure}"
      using apply_except_trace by blast
    have "snd (apply_inner E t a k tr) = tr @ (?p @ pre) @ postrun_sends E t a k"
      unfolding apply_inner_def using Some pre(1)
      by (subst send_signal_append) simp
    moreover have "task_postrun \<notin> fst ` set (sent (?p @ pre))"
      using p pre(2) by (auto simp: sent_append)
    ultimately show ?thesis by blast
  next
    case None
    let ?a = "[Alarm (limit E t), Called a k, Alarm 0]"
    show ?thesis
    proof (cases "fst (time_limit (limit E t) t a k (tr @ ?p))")
      case (Inl err)
      obtain pre where pre: "snd (apply_except E t a k err (tr @ ?p @ ?a)) = (tr @ ?p @ ?a) @ pre @ postrun_sends E t a k"
        "fst ` set (sent pre) \<subseteq> {task_failure}"
        using apply_except_trace by blast
      have "snd (apply_inner E t a k tr) = tr @ (?p @ ?a @ pre) @ postrun_sends E t a k"
        unfolding apply_inner_def using None Inl pre(1)
        by (subst send_signal_append) (simp add: time_limit_def Let_def)
      moreover have "task_postrun \<notin> fst ` set (sent (?p @ ?a @ pre))"
        using p pre(2) by (auto simp: sent_append sent_alarm)
      ultimately show ?thesis by blast
    next
      case (Inr v)
      obtain pre where pre: "snd (apply_else E t a k v (tr @ ?p @ ?a)) = (tr @ ?p @ ?a) @ pre @ postrun_sends E t a k"
        "fst ` set (sent pre) \<subseteq> {task_success}"
        using apply_else_trace by blast
      have "snd (apply_inner E t a k tr) = tr @ (?p @ ?a @ pre) @ postrun_sends E t a k"
        unfolding apply_inner_def using None Inr pre(1)
        by (subst send_signal_append) (simp add: time_limit_def Let_def)
      moreover have "task_postrun \<notin> fst ` set (sent (?p @ ?a @ pre))"
        using p pre(2) by (auto simp: sent_append sent_alarm)
      ultimately show ?thesis by blast
    qed
  qed
qed

lemma postrun_sends_self:
  "count_list (sent (postrun_sends E t a k)) (task_postrun, SenderSelf) = 1"
  unfolding postrun_sends_def send_signal_def senders_def
  by (simp add: sent_def Let_def split: option.splits)

lemma send_signal_quiet:
  "\<forall>d. receivers E d = None \<Longrightarrow>
   send_signal E t sg a k r x tr = (None, tr @ broadcast t sg a k r x)"
  unfolding send_signal_def broadcast_def by (rule send_each_quiet)

lemma time_limit_eq:
  "time_limit n t a k tr = (fst (time_limit n t a k []), tr @ [Alarm n, Called a k, Alarm 0])"
  by (simp add: time_limit_def Let_def)

lemmas example_defs = quiet_env_def example_task_def returns_42_def raises_ValueError_def
  raises_SystemExit_def sleeps_10_def

section \<open>Task.apply and its events\<close>

text \<open>
  C2 (amended). Whatever the wrapped function and the receivers do, \<^verbatim>\<open>Task.apply\<close>
  sends the post-run signal once and last: what it adds to the trace ends with the
  post-run broadcast, nothing before that is a post-run delivery, and the broadcast reaches
  the task itself once. Provided no receiver raises: an exception of the body that derives
  from \<^verbatim>\<open>Exception\<close> (the deadline's \<open>Timeout\<close> is one) is followed by the failure
  signal carrying it and is raised again; an exception that does not derive from
  \<^verbatim>\<open>Exception\<close> is raised again with no failure signal; a return value \<open>v\<close> is
  followed by the success signal carrying \<open>v\<close>.
\<close>

theorem apply_events:
  "(\<exists>pre. snd (task_apply E t args kwargs tr) = tr @ pre @ postrun_sends E t args kwargs
          \<and> task_postrun \<notin> fst ` set (sent pre))
   \<and> count_list (sent (postrun_sends E t args kwargs)) (task_postrun, SenderSelf) = 1
   \<and> ((\<forall>d. receivers E d = None) \<longrightarrow>
        (body_outcome E t args kwargs = Inl e \<and> is_Exception e \<longrightarrow>
           task_apply E t args kwargs tr =
             (Inl e, tr @ broadcast t task_prerun args kwargs True NoExtra
                        @ [Alarm (limit E t), Called args kwargs, Alarm 0]
                        @ broadcast t task_failure args kwargs False (exc_info e)
                        @ broadcast t task_postrun args kwargs False NoExtra))
      \<and> (body_outcome E t args kwargs = Inl e \<and> \<not> is_Exception e \<longrightarrow>
           task_apply E t args kwargs tr =
             (Inl e, tr @ broadcast t task_prerun args kwargs True NoExtra
                        @ [Alarm (limit E t), Called args kwargs, Alarm 0]
                        @ broadcast t task_postrun args kwargs False NoExtra))
      \<and> (body_outcome E t args kwargs = Inr v \<longrightarrow>
           task_apply E t args kwargs tr =
             (Inr PyNone, tr @ broadcast t task_prerun args kwargs True NoExtra
                        @ [Alarm (limit E t), Called args kwargs, Alarm 0]
                        @ broadcast t task_success args kwargs False (return_value v)
                        @ broadcast t task_postrun args kwargs False NoExtra)))"
proof (intro conjI impI)
  show "\<exists>pre. snd (task_apply E t args kwargs tr) = tr @ pre @ postrun_sends E t args kwargs
          \<and> task_postrun \<notin> fst ` set (sent pre)"
    using apply_inner_trace [of E t args kwargs tr]
    by (simp add: task_apply_def profile_def split: prod.splits)
  show "count_list (sent (postrun_sends E t args kwargs)) (task_postrun, SenderSelf) = 1"
    by (rule postrun_sends_self)
next
  assume q: "\<forall>d. receivers E d = None"
    and b: "body_outcome E t args kwargs = Inl e \<and> is_Exception e"
  then show "task_apply E t args kwargs tr =
             (Inl e, tr @ broadcast t task_prerun args kwargs True NoExtra
                        @ [Alarm (limit E t), Called args kwargs, Alarm 0]
                        @ broadcast t task_failure args kwargs False (exc_info e)
                        @ broadcast t task_postrun args kwargs False NoExtra)"
    unfolding task_apply_def profile_def apply_inner_def apply_except_def apply_finally_def
      body_outcome_def
    by (subst time_limit_eq) (simp add: send_signal_quiet)
next
  assume q: "\<forall>d. receivers E d = None"
    and b: "body_outcome E t args kwargs = Inl e \<and> \<not> is_Exception e"
  then show "task_apply E t args kwargs tr =
             (Inl e, tr @ broadcast t task_prerun args kwargs True NoExtra
                        @ [Alarm (limit E t), Called args kwargs, Alarm 0]
                        @ broadcast t task_postrun args kwargs False NoExtra)"
    unfolding task_apply_def profile_def apply_inner_def apply_except_def apply_finally_def
      body_outcome_def
    by (subst time_limit_eq) (simp add: send_signal_quiet)
next
  assume q: "\<forall>d. receivers E d = None"
    and b: "body_outcome E t args kwargs = Inr v"
  then show "task_apply E t args kwargs tr =
             (Inr PyNone, tr @ broadcast t task_prerun args kwargs True NoExtra
                        @ [Alarm (limit E t), Called args kwargs, Alarm 0]
                        @ broadcast t task_success args kwargs False (return_value v)
                        @ broadcast t task_postrun args kwargs False NoExtra)"
    unfolding task_apply_def profile_def apply_inner_def apply_else_def apply_finally_def
      body_outcome_def
    by (subst time_limit_eq) (simp add: send_signal_quiet)
qed

theorem apply_events_witness:
  "receivers quiet_env = (\<lambda>d. None)
   \<and> body_outcome quiet_env (example_task raises_ValueError) [] [] = Inl (UserError ''ValueError'')
   \<and> is_Exception (UserError ''ValueError'')
   \<and> task_apply quiet_env (example_task raises_ValueError) [] [] [] =
       (Inl (UserError ''ValueError''),
        [Sent (Delivery task_prerun SenderKuyruk [] [] NoExtra),
         Sent (Delivery task_prerun (SenderClass (PyClass 0 ''Task'')) [] [] NoExtra),
         Sent (Delivery task_prerun SenderSelf [] [] NoExtra),
         Alarm 0, Called [] [], Alarm 0,
         Sent (Delivery task_failure SenderSelf [] [] (exc_info (UserError ''ValueError''))),
         Sent (Delivery task_failure (SenderClass (PyClass 0 ''Task'')) [] [] (exc_info (UserError ''ValueError''))),
         Sent (Delivery task_failure SenderKuyruk [] [] (exc_info (UserError ''ValueError''))),
         Sent (Delivery task_postrun SenderSelf [] [] NoExtra),
         Sent (Delivery task_postrun (SenderClass (PyClass 0 ''Task'')) [] [] NoExtra),
         Sent (Delivery task_postrun SenderKuyruk [] [] NoExtra)])
   \<and> body_outcome quiet_env ((example_task sleeps_10)\<lparr>max_run_time := Some 1\<rparr>) [] [] = Inl Timeout
   \<and> fst (task_apply quiet_env ((example_task sleeps_10)\<lparr>max_run_time := Some 1\<rparr>) [] [] []) = Inl Timeout
   \<and> body_outcome quiet_env (example_task returns_42) [] [] = Inr (PyInt 42)
   \<and> task_apply quiet_env (example_task returns_42) [] [] [] =
       (Inr PyNone,
        [Sent (Delivery task_prerun SenderKuyruk [] [] NoExtra),
         Sent (Delivery task_prerun (SenderClass (PyClass 0 ''Task'')) [] [] NoExtra),
         Sent (Delivery task_prerun SenderSelf [] [] NoExtra),
         Alarm 0, Called [] [], Alarm 0,
         Sent (Delivery task_success SenderSelf [] [] (return_value (PyInt 42))),
         Sent (Delivery task_success (SenderClass (PyClass 0 ''Task'')) [] [] (return_value (PyInt 42))),
         Sent (Delivery task_success SenderKuyruk [] [] (return_value (PyInt 42))),
         Sent (Delivery task_postrun SenderSelf [] [] NoExtra),
         Sent (Delivery task_postrun (SenderClass (PyClass 0 ''Task'')) [] [] NoExtra),
         Sent (Delivery task_postrun SenderKuyruk [] [] NoExtra)])"
proof -
  have q: "\<forall>d. receivers quiet_env d = None" by (simp add: quiet_env_def)
  have b1: "body_outcome quiet_env (example_task raises_ValueError) [] [] = Inl (UserError ''ValueError'')"
    by (simp add: body_outcome_def time_limit_def limit_def example_defs)
  have b2: "body_outcome quiet_env ((example_task sleeps_10)\<lparr>max_run_time := Some 1\<rparr>) [] [] = Inl Timeout"
    by (simp add: body_outcome_def time_limit_def limit_def example_defs)
  have b3: "body_outcome quiet_env (example_task returns_42) [] [] = Inr (PyInt 42)"
    by (simp add: body_outcome_def time_limit_def limit_def example_defs)
  have l: "limit quiet_env (example_task raises_ValueError) = 0"
     "limit quiet_env (example_task returns_42) = 0"
    by (simp_all add: limit_def example_defs)
  have s: "senders (example_task raises_ValueError) True = [SenderKuyruk, SenderClass (PyClass 0 ''Task''), SenderSelf]"
    "senders (example_task raises_ValueError) False = [SenderSelf, SenderClass (PyClass 0 ''Task''), SenderKuyruk]"
    "senders (example_task returns_42) True = [SenderKuyruk, SenderClass (PyClass 0 ''Task''), SenderSelf]"
    "senders (example_task returns_42) False = [SenderSelf, SenderClass (PyClass 0 ''Task''), SenderKuyruk]"
    by (simp_all add: senders_def example_task_def)
  have r: "receivers quiet_env = (\<lambda>d. None)" by (simp add: quiet_env_def)
  have t1: "task_apply quiet_env (example_task raises_ValueError) [] [] [] =
       (Inl (UserError ''ValueError''),
        [] @ broadcast (example_task raises_ValueError) task_prerun [] [] True NoExtra
           @ [Alarm (limit quiet_env (example_task raises_ValueError)), Called [] [], Alarm 0]
           @ broadcast (example_task raises_ValueError) task_failure [] [] False
               (exc_info (UserError ''ValueError''))
           @ broadcast (example_task raises_ValueError) task_postrun [] [] False NoExtra)"
    using q b1
      apply_events [of quiet_env "example_task raises_ValueError" "[]" "[]" "[]" "UserError ''ValueError''"]
    by simp
  have t2: "fst (task_apply quiet_env ((example_task sleeps_10)\<lparr>max_run_time := Some 1\<rparr>) [] [] []) = Inl Timeout"
    using q b2
      apply_events [of quiet_env "(example_task sleeps_10)\<lparr>max_run_time := Some 1\<rparr>" "[]" "[]" "[]" Timeout]
    by simp
  have t3: "task_apply quiet_env (example_task returns_42) [] [] [] =
       (Inr PyNone,
        [] @ broadcast (example_task returns_42) task_prerun [] [] True NoExtra
           @ [Alarm (limit quiet_env (example_task returns_42)), Called [] [], Alarm 0]
           @ broadcast (example_task returns_42) task_success [] [] False (return_value (PyInt 42))
           @ broadcast (example_task returns_42) task_postrun [] [] False NoExtra)"
    using q b3
      apply_events [of quiet_env "example_task returns_42" "[]" "[]" "[]" _ "PyInt 42"]
    by simp
  show ?thesis
    unfolding t1 t2 t3 b1 b2 b3 r by (simp add: l s broadcast_def)
qed

text \<open>
  C2 as stated fails twice. A body that raises \<^verbatim>\<open>SystemExit\<close> passes
  \<^verbatim>\<open>except Exception\<close> by, and no failure signal is sent. And when the body raises
  \<^verbatim>\<open>ValueError\<close> and a receiver of the failure signal raises, the caller gets the
  exception of the receiver, not the one of the body.
\<close>

theorem apply_failure_counterexample:
  "body_outcome quiet_env (example_task raises_SystemExit) [] [] = Inl (SystemExiting ''SystemExit'')
   \<and> task_failure \<notin> fst ` set (sent (snd (task_apply quiet_env (example_task raises_SystemExit) [] [] [])))
   \<and> body_outcome (quiet_env\<lparr>receivers := failure_receiver_raises\<rparr>)
        (example_task raises_ValueError) [] [] = Inl (UserError ''ValueError'')
   \<and> fst (task_apply (quiet_env\<lparr>receivers := failure_receiver_raises\<rparr>)
        (example_task raises_ValueError) [] [] []) = Inl (UserError ''HandlerError'')"
  by (simp add: body_outcome_def time_limit_def limit_def example_defs task_apply_def profile_def
      apply_inner_def apply_except_def apply_finally_def send_signal_def senders_def sent_def
      failure_receiver_raises_def)

section \<open>Eager invocation\<close>

text \<open>
  C1. An eager task whose body returns 42: the handle \<^verbatim>\<open>__call__\<close> returns has
  \<^verbatim>\<open>result\<close> equal to \<^verbatim>\<open>None\<close>, since \<^verbatim>\<open>Task.apply\<close> computes the return
  value of the body and does not return it.
\<close>

theorem eager_result_is_None:
  "snd (f_call ((example_task returns_42)\<lparr>eager := True\<rparr>) [] []) = Inr (PyInt 42)
   \<and> fst (call quiet_env ((example_task returns_42)\<lparr>eager := True\<rparr>) [] [] []) =
       Inr (setattr (TaskResult ((example_task returns_42)\<lparr>eager := True\<rparr>)) ''result'' PyNone)
   \<and> getattr (setattr (TaskResult ((example_task returns_42)\<lparr>eager := True\<rparr>)) ''result'' PyNone) ''result''
       = Inr (ValueAttr PyNone)"
  by (simp add: example_defs call_def call_postsend_def task_apply_def profile_def
      apply_inner_def apply_else_def apply_finally_def send_signal_def senders_def time_limit_def
      limit_def getattr_def setattr_def TaskResult_def)

section \<open>Reading the handle of a queued invocation\<close>

lemma queued_handle_form:
  assumes "\<not> eager t" "\<not> EAGER E" "fst (call E t args kwargs tr) = Inr h"
  shows "\<exists>i. h = setattr (TaskResult t) ''id'' i"
  using assms unfolding call_def call_postsend_def Let_def
  by (auto split: prod.splits option.splits sum.splits)

text \<open>
  C3 (amended). The handle a queued invocation returns: every item read raises, and so
  does every attribute read of a name the handle does not have. The attributes it has are
  read without an error: \<^verbatim>\<open>task\<close>, \<^verbatim>\<open>id\<close> and the names found on the class
  (\<^verbatim>\<open>__repr__\<close> is one). What
  is raised is the plain \<^verbatim>\<open>Exception\<close> whose only argument is the name or the key
  that was read; no error type or message of its own tells a missing result backend from
  anything else.
\<close>

theorem queued_handle_reads:
  assumes "\<not> eager t" "\<not> EAGER E" "fst (call E t args kwargs tr) = Inr h"
  shows "getitem h key = Inl (Exception [key])
       \<and> (item \<noteq> ''task'' \<and> item \<noteq> ''id'' \<and> item \<notin> set class_attrs
            \<longrightarrow> getattr h item = Inl (Exception [PyStr item]))
       \<and> getattr h ''task'' = Inr (TaskAttr t)
       \<and> (\<exists>i. getattr h ''id'' = Inr (ValueAttr i))
       \<and> (item \<in> set class_attrs \<longrightarrow> getattr h item = Inr (ClassAttr item))"
proof -
  obtain i where h: "h = setattr (TaskResult t) ''id'' i"
    using queued_handle_form [OF assms] by blast
  have c: "''task'' \<notin> set class_attrs" "''id'' \<notin> set class_attrs"
    by (simp_all add: class_attrs_def)
  show ?thesis
    unfolding h using c by (auto simp add: getitem_def getattr_def setattr_def TaskResult_def)
qed

theorem queued_handle_reads_witness:
  "\<not> eager (example_task returns_42) \<and> \<not> EAGER quiet_env
   \<and> fst (call quiet_env (example_task returns_42) [] [] []) =
       Inr (setattr (TaskResult (example_task returns_42)) ''id'' (PyStr ''0f3a''))
   \<and> getitem (setattr (TaskResult (example_task returns_42)) ''id'' (PyStr ''0f3a'')) (PyInt 0)
       = Inl (Exception [PyInt 0])
   \<and> getattr (setattr (TaskResult (example_task returns_42)) ''id'' (PyStr ''0f3a'')) ''result''
       = Inl (Exception [PyStr ''result''])
   \<and> getattr (setattr (TaskResult (example_task returns_42)) ''id'' (PyStr ''0f3a'')) ''__repr__''
       = Inr (ClassAttr ''__repr__'')"
proof -
  have a: "\<not> eager (example_task returns_42)" "\<not> EAGER quiet_env"
    by (simp_all add: example_defs)
  have c: "fst (call quiet_env (example_task returns_42) [] [] []) =
       Inr (setattr (TaskResult (example_task returns_42)) ''id'' (PyStr ''0f3a''))"
    by (simp add: example_defs call_def call_postsend_def send_signal_def senders_def pop_def
        send_to_queue_def resolve_queue_def get_task_description_def replace_first_def
        desc_id_def class_name_def module_name_of_def)
  have n: "''result'' \<notin> set class_attrs" "''__repr__'' \<in> set class_attrs"
    by (simp_all add: class_attrs_def)
  show ?thesis
    using a c n queued_handle_reads [OF a c, of "PyInt 0" "''result''"]
      queued_handle_reads [OF a c, of "PyInt 0" "''__repr__''"]
    by simp
qed

text \<open>
  C3 as stated fails: on the handle of a queued invocation the attribute \<^verbatim>\<open>id\<close> is read
  without an error, and gives the id of the descriptor.
\<close>

theorem queued_handle_id_counterexample:
  "fst (call quiet_env (example_task returns_42) [] [] []) =
       Inr (setattr (TaskResult (example_task returns_42)) ''id'' (PyStr ''0f3a''))
   \<and> getattr (setattr (TaskResult (example_task returns_42)) ''id'' (PyStr ''0f3a'')) ''id''
       = Inr (ValueAttr (PyStr ''0f3a''))"
  by (simp add: example_defs call_def call_postsend_def send_signal_def senders_def pop_def
        send_to_queue_def resolve_queue_def get_task_description_def replace_first_def
        desc_id_def class_name_def module_name_of_def getattr_def setattr_def TaskResult_def)

section \<open>The class of a method task\<close>

lemma get_sets_cls:
  "cls (fst (get t obj c)) = Some c
   \<and> cls (fst (get (fst (get t obj c)) obj' c')) = Some c'"
  by (simp add: get_def Let_def split: option.splits)

text \<open>
  C4. A task method \<^verbatim>\<open>echo\<close> of the class \<^verbatim>\<open>Cat\<close>, reached first through an instance
  of \<^verbatim>\<open>Cat\<close> and then through an instance of its subclass \<^verbatim>\<open>Kitten\<close>: the first access
  sets \<^verbatim>\<open>cls\<close> and the name is \<^verbatim>\<open>tasks:Cat.echo\<close>; the second access sets
  \<^verbatim>\<open>cls\<close> again, to \<^verbatim>\<open>Kitten\<close>, and the name becomes \<^verbatim>\<open>tasks:Kitten.echo\<close>.
\<close>

theorem get_reassigns_cls:
  "cls (fst (get (example_task returns_42) (Some (PyObj ''Cat'' [(''id'', PyInt 7)] True))
               (PyClass 1 ''Cat''))) = Some (PyClass 1 ''Cat'')
   \<and> name quiet_env
        (fst (get (example_task returns_42) (Some (PyObj ''Cat'' [(''id'', PyInt 7)] True))
                  (PyClass 1 ''Cat'')))
     = ''tasks:Cat.echo''
   \<and> cls (fst (get (fst (get (example_task returns_42)
                            (Some (PyObj ''Cat'' [(''id'', PyInt 7)] True)) (PyClass 1 ''Cat'')))
                  (Some (PyObj ''Kitten'' [(''id'', PyInt 8)] True)) (PyClass 2 ''Kitten'')))
     = Some (PyClass 2 ''Kitten'')
   \<and> name quiet_env
        (fst (get (fst (get (example_task returns_42)
                            (Some (PyObj ''Cat'' [(''id'', PyInt 7)] True)) (PyClass 1 ''Cat'')))
                  (Some (PyObj ''Kitten'' [(''id'', PyInt 8)] True)) (PyClass 2 ''Kitten'')))
     = ''tasks:Kitten.echo''"
  by (simp add: get_def name_def class_name_def module_name_of_def example_defs)

section \<open>The queue of a queued invocation\<close>

text \<open>
  C5 (amended). A host that is true in a condition (a string that is not empty) wins over
  everything: the queue is \<^verbatim>\<open><queue>.<host>\<close> and the local flag is \<^verbatim>\<open>False\<close>,
  whatever \<^verbatim>\<open>local\<close> says. With no such host the queue is the one of the task, and a
  \<^verbatim>\<open>local\<close> of \<^verbatim>\<open>True\<close> or \<^verbatim>\<open>False\<close> replaces the flag of the task, which stands
  when \<^verbatim>\<open>local\<close> is not given.
\<close>

theorem resolve_queue_rules:
  "(truthy host \<longrightarrow>
      resolve_queue E t host local_arg = (queue t @ ''.'' @ percent_s E host, PyBool False))
   \<and> percent_s E (PyStr h) = h
   \<and> (\<not> truthy host \<longrightarrow> resolve_queue E t host (PyBool b) = (queue t, PyBool b))
   \<and> (\<not> truthy host \<longrightarrow> resolve_queue E t host PyNone = (queue t, PyBool (local t)))"
  by (simp add: resolve_queue_def percent_s_def)

theorem resolve_queue_rules_witness:
  "truthy (PyStr ''h'') \<and> \<not> truthy PyNone
   \<and> resolve_queue quiet_env ((example_task returns_42)\<lparr>local := True\<rparr>) (PyStr ''h'') (PyBool True)
       = (''kuyruk.h'', PyBool False)
   \<and> resolve_queue quiet_env ((example_task returns_42)\<lparr>local := True\<rparr>) PyNone (PyBool False)
       = (''kuyruk'', PyBool False)
   \<and> resolve_queue quiet_env ((example_task returns_42)\<lparr>local := True\<rparr>) PyNone PyNone
       = (''kuyruk'', PyBool True)"
proof -
  have q: "queue ((example_task returns_42)\<lparr>local := True\<rparr>) = ''kuyruk''"
    "local ((example_task returns_42)\<lparr>local := True\<rparr>)"
    by (simp_all add: example_task_def)
  show ?thesis
    using resolve_queue_rules [of "PyStr ''h''" quiet_env "(example_task returns_42)\<lparr>local := True\<rparr>" "PyBool True" "''h''" False]
      resolve_queue_rules [of PyNone quiet_env "(example_task returns_42)\<lparr>local := True\<rparr>" PyNone "''h''" False]
    by (simp add: q)
qed

text \<open>
  C5 as stated fails for the host \<^verbatim>\<open>''\<close>: the test \<^verbatim>\<open>if host:\<close> takes the empty
  string for no host, so the queue keeps its name and the task keeps its local flag.
\<close>

theorem empty_host_counterexample:
  "resolve_queue quiet_env ((example_task returns_42)\<lparr>local := True\<rparr>) (PyStr '''') PyNone
     = (''kuyruk'', PyBool True)"
  by (simp add: resolve_queue_def example_task_def)

section \<open>The senders of a signal\<close>











section \<open>The descriptor\<close>

text \<open>
  C9 (amended). With \<^verbatim>\<open>cls\<close> set and a first argument that has an \<^verbatim>\<open>id\<close>, the
  descriptor holds the arguments with the first one replaced by that \<^verbatim>\<open>id\<close>, and its
  \<^verbatim>\<open>class\<close> field holds the name of the class. With \<^verbatim>\<open>cls\<close> not set the arguments
  are as given and the \<^verbatim>\<open>class\<close> field is there, holding \<^verbatim>\<open>None\<close>.
\<close>

theorem description_of_bound_and_unbound:
  "(cls t = Some c \<and> getattr_id a = Inr i \<longrightarrow>
      (\<exists>d. get_task_description E t (a # as) kwargs q = Inr d
           \<and> map_of d ''args'' = Some (PyList (i # as))
           \<and> map_of d ''class'' = Some (PyStr (dunder_name c))))
   \<and> (cls t = None \<longrightarrow>
      (\<exists>d. get_task_description E t args kwargs q = Inr d
           \<and> map_of d ''args'' = Some (PyList args)
           \<and> map_of d ''class'' = Some PyNone))"
  by (simp add: get_task_description_def replace_first_def class_name_def)

theorem description_of_bound_and_unbound_witness:
  "cls ((example_task returns_42)\<lparr>cls := Some (PyClass 1 ''Cat'')\<rparr>) = Some (PyClass 1 ''Cat'')
   \<and> getattr_id (PyObj ''Cat'' [(''id'', PyInt 7)] True) = Inr (PyInt 7)
   \<and> get_task_description quiet_env ((example_task returns_42)\<lparr>cls := Some (PyClass 1 ''Cat'')\<rparr>)
        [PyObj ''Cat'' [(''id'', PyInt 7)] True, PyInt 1] [] ''kuyruk''
      = Inr [(''id'', PyStr ''0f3a''), (''queue'', PyStr ''kuyruk''),
             (''args'', PyList [PyInt 7, PyInt 1]), (''kwargs'', PyDict []),
             (''module'', PyStr ''tasks''), (''function'', PyStr ''echo''),
             (''class'', PyStr ''Cat''), (''retry'', PyInt 0),
             (''sender_timestamp'', PyStr ''2013-01-01 00:00:00''),
             (''sender_hostname'', PyStr ''worker1''), (''sender_pid'', PyInt 4242),
             (''sender_cmd'', PyStr ''python app.py'')]"
proof -
  have c: "cls ((example_task returns_42)\<lparr>cls := Some (PyClass 1 ''Cat'')\<rparr>) = Some (PyClass 1 ''Cat'')" by simp
  have i: "getattr_id (PyObj ''Cat'' [(''id'', PyInt 7)] True) = Inr (PyInt 7)" by simp
  show ?thesis
    using c i
      description_of_bound_and_unbound [of "(example_task returns_42)\<lparr>cls := Some (PyClass 1 ''Cat'')\<rparr>"
        "PyClass 1 ''Cat''" "PyObj ''Cat'' [(''id'', PyInt 7)] True" "PyInt 7" quiet_env "[PyInt 1]" "[]"
        "''kuyruk''" "[]"]
    by (simp add: get_task_description_def replace_first_def class_name_def module_name_of_def
        example_defs)
qed

text \<open>
  C9 as stated fails for a task with no class: the key \<^verbatim>\<open>class\<close> is in the
  descriptor, with the value \<^verbatim>\<open>None\<close>.
\<close>

theorem description_class_counterexample:
  "cls (example_task returns_42) = None
   \<and> get_task_description quiet_env (example_task returns_42) [PyInt 1] [] ''kuyruk''
      = Inr [(''id'', PyStr ''0f3a''), (''queue'', PyStr ''kuyruk''),
             (''args'', PyList [PyInt 1]), (''kwargs'', PyDict []),
             (''module'', PyStr ''tasks''), (''function'', PyStr ''echo''),
             (''class'', PyNone), (''retry'', PyInt 0),
             (''sender_timestamp'', PyStr ''2013-01-01 00:00:00''),
             (''sender_hostname'', PyStr ''worker1''), (''sender_pid'', PyInt 4242),
             (''sender_cmd'', PyStr ''python app.py'')]
   \<and> map_of [(''id'', PyStr ''0f3a''), (''queue'', PyStr ''kuyruk''),
             (''args'', PyList [PyInt 1]), (''kwargs'', PyDict []),
             (''module'', PyStr ''tasks''), (''function'', PyStr ''echo''),
             (''class'', PyNone), (''retry'', PyInt 0),
             (''sender_timestamp'', PyStr ''2013-01-01 00:00:00''),
             (''sender_hostname'', PyStr ''worker1''), (''sender_pid'', PyInt 4242),
             (''sender_cmd'', PyStr ''python app.py'')] ''class'' = Some PyNone"
  by (simp add: get_task_description_def replace_first_def class_name_def module_name_of_def
      example_defs)

section \<open>The routing keys among the keyword arguments\<close>

lemma called_append: "called (a @ b) = called a @ called b"
  by (simp add: called_def)

lemma queue_sends_append: "queue_sends (a @ b) = queue_sends a @ queue_sends b"
  by (simp add: queue_sends_def)

lemma called_Cons:
  "called (Called a k # tr) = (a, k) # called tr"
  "called (Alarm n # tr) = called tr"
  "called (ChannelOpen # tr) = called tr"
  "called (ChannelClose # tr) = called tr"
  "called (QueueSend q l d # tr) = called tr"
  "called [] = []"
  by (simp_all add: called_def)

lemma queue_sends_Cons:
  "queue_sends (Called a k # tr) = queue_sends tr"
  "queue_sends (Alarm n # tr) = queue_sends tr"
  "queue_sends (ChannelOpen # tr) = queue_sends tr"
  "queue_sends (ChannelClose # tr) = queue_sends tr"
  "queue_sends (QueueSend q l d # tr) = (q, l, d) # queue_sends tr"
  "queue_sends [] = []"
  by (simp_all add: queue_sends_def)

lemma called_broadcast: "called (broadcast t sg a k r x) = []"
  by (simp add: called_def broadcast_def senders_def Let_def)

lemma queue_sends_broadcast: "queue_sends (broadcast t sg a k r x) = []"
  by (simp add: queue_sends_def broadcast_def senders_def Let_def)

lemma map_of_filter_other:
  "k' \<noteq> k \<Longrightarrow> map_of (filter (\<lambda>kv. fst kv \<noteq> k) xs) k' = map_of xs k'"
  by (induction xs) auto

lemma apply_quiet:
  assumes "\<forall>d. receivers E d = None"
  shows "\<exists>res mid. task_apply E t a k tr =
            (res, tr @ broadcast t task_prerun a k True NoExtra
                     @ [Alarm (limit E t), Called a k, Alarm 0] @ mid)
          \<and> called mid = [] \<and> queue_sends mid = []"
proof (cases "fst (time_limit (limit E t) t a k [])")
  case (Inr v)
  have "task_apply E t a k tr =
          (Inr PyNone, tr @ broadcast t task_prerun a k True NoExtra
             @ [Alarm (limit E t), Called a k, Alarm 0]
             @ (broadcast t task_success a k False (return_value v)
                @ broadcast t task_postrun a k False NoExtra))"
    unfolding task_apply_def profile_def apply_inner_def apply_else_def apply_finally_def
    using Inr by (subst time_limit_eq) (simp add: send_signal_quiet [OF assms])
  then show ?thesis
    by (metis called_append called_broadcast queue_sends_append queue_sends_broadcast append_Nil)
next
  case (Inl e)
  show ?thesis
  proof (cases "is_Exception e")
    case True
    have "task_apply E t a k tr =
          (Inl e, tr @ broadcast t task_prerun a k True NoExtra
             @ [Alarm (limit E t), Called a k, Alarm 0]
             @ (broadcast t task_failure a k False (exc_info e)
                @ broadcast t task_postrun a k False NoExtra))"
      unfolding task_apply_def profile_def apply_inner_def apply_except_def apply_finally_def
      using Inl True by (subst time_limit_eq) (simp add: send_signal_quiet [OF assms])
    then show ?thesis
      by (metis called_append called_broadcast queue_sends_append queue_sends_broadcast append_Nil)
  next
    case False
    have "task_apply E t a k tr =
          (Inl e, tr @ broadcast t task_prerun a k True NoExtra
             @ [Alarm (limit E t), Called a k, Alarm 0]
             @ broadcast t task_postrun a k False NoExtra)"
      unfolding task_apply_def profile_def apply_inner_def apply_except_def apply_finally_def
      using Inl False by (subst time_limit_eq) (simp add: send_signal_quiet [OF assms])
    then show ?thesis
      by (metis called_broadcast queue_sends_broadcast)
  qed
qed

lemma call_eager_effects:
  assumes q: "\<forall>d. receivers E d = None" and e: "eager t \<or> EAGER E"
  shows "called (snd (call E t args kwargs tr)) = called tr @ [(args, kwargs)]
       \<and> queue_sends (snd (call E t args kwargs tr)) = queue_sends tr"
proof -
  let ?tr1 = "tr @ broadcast t task_presend args kwargs True NoExtra"
  obtain res mid where a: "task_apply E t args kwargs ?tr1 =
            (res, ?tr1 @ broadcast t task_prerun args kwargs True NoExtra
                     @ [Alarm (limit E t), Called args kwargs, Alarm 0] @ mid)"
      "called mid = []" "queue_sends mid = []"
    using apply_quiet [OF q] by blast
  have "snd (call E t args kwargs tr) =
          ?tr1 @ broadcast t task_prerun args kwargs True NoExtra
               @ [Alarm (limit E t), Called args kwargs, Alarm 0] @ mid
               @ (case res of Inl err \<Rightarrow> [] | Inr v \<Rightarrow> broadcast t task_postsend args kwargs False NoExtra)"
    unfolding call_def call_postsend_def using e a(1)
    by (simp add: send_signal_quiet [OF q] split: sum.splits)
  then show ?thesis
    using a(2,3)
    by (simp add: called_append queue_sends_append called_broadcast queue_sends_broadcast
        called_Cons queue_sends_Cons split: sum.splits)
qed

lemma call_queued_effects:
  assumes q: "\<forall>d. receivers E d = None" and e: "\<not> eager t" "\<not> EAGER E"
    and c: "channel_error E = None"
    and d: "get_task_description E t args (without_routing kwargs)
              (queue_name E (fst (resolve_queue E t (dict_get kwargs ''kuyruk_host'')
                                     (dict_get kwargs ''kuyruk_local'')))
                 (truthy (snd (resolve_queue E t (dict_get kwargs ''kuyruk_host'')
                                     (dict_get kwargs ''kuyruk_local''))))) = Inr desc"
  shows "called (snd (call E t args kwargs tr)) = called tr
       \<and> queue_sends (snd (call E t args kwargs tr)) =
           queue_sends tr @
             [(fst (resolve_queue E t (dict_get kwargs ''kuyruk_host'') (dict_get kwargs ''kuyruk_local'')),
               truthy (snd (resolve_queue E t (dict_get kwargs ''kuyruk_host'') (dict_get kwargs ''kuyruk_local''))),
               desc)]"
proof -
  let ?tr1 = "tr @ broadcast t task_presend args kwargs True NoExtra"
  let ?rq = "resolve_queue E t (dict_get kwargs ''kuyruk_host'') (dict_get kwargs ''kuyruk_local'')"
  have p: "pop kwargs ''kuyruk_host'' =
             (dict_get kwargs ''kuyruk_host'', filter (\<lambda>kv. fst kv \<noteq> ''kuyruk_host'') kwargs)"
    by (simp add: pop_def dict_get_def)
  have p2: "pop (filter (\<lambda>kv. fst kv \<noteq> ''kuyruk_host'') kwargs) ''kuyruk_local'' =
             (dict_get kwargs ''kuyruk_local'', without_routing kwargs)"
    by (simp add: pop_def dict_get_def map_of_filter_other without_routing_def)
  have s: "send_to_queue E t args (without_routing kwargs) (dict_get kwargs ''kuyruk_host'')
             (dict_get kwargs ''kuyruk_local'') ?tr1 =
           (case send_error E of
              Some err \<Rightarrow> (Inl err, ?tr1 @ [ChannelOpen, QueueSend (fst ?rq) (truthy (snd ?rq)) desc, ChannelClose])
            | None \<Rightarrow> (Inr (desc_id desc), ?tr1 @ [ChannelOpen, QueueSend (fst ?rq) (truthy (snd ?rq)) desc, ChannelClose]))"
    unfolding send_to_queue_def using c d
    by (cases ?rq) (auto split: option.splits)
  have "snd (call E t args kwargs tr) =
          ?tr1 @ [ChannelOpen, QueueSend (fst ?rq) (truthy (snd ?rq)) desc, ChannelClose]
            @ (case send_error E of Some err \<Rightarrow> []
               | None \<Rightarrow> broadcast t task_postsend args (without_routing kwargs) False NoExtra)"
    unfolding call_def call_postsend_def using e
    by (simp add: send_signal_quiet [OF q] p p2 s split: option.splits)
  then show ?thesis
    by (simp add: called_append queue_sends_append called_broadcast queue_sends_broadcast
        called_Cons queue_sends_Cons split: option.splits)
qed

lemma description_kwargs:
  "get_task_description E t args kwargs q = Inr desc \<Longrightarrow>
   map_of desc ''kwargs'' = Some (PyDict kwargs)"
  by (auto simp add: get_task_description_def split: sum.splits)

text \<open>
  C10. When no receiver raises: on the eager path the wrapped function is called once,
  with the keyword arguments as they were given, the routing keys among them, and nothing
  is sent to a queue. On the queued path the function is not called; the host and the local
  flag are read from the keys \<^verbatim>\<open>kuyruk_host\<close> and \<^verbatim>\<open>kuyruk_local\<close>, and the
  descriptor, built from the keyword arguments without these two keys, is sent once.
\<close>

theorem routing_keys_popped_when_queued:
  assumes "\<forall>d. receivers E d = None"
  shows "(eager t \<or> EAGER E \<longrightarrow>
            called (snd (call E t args kwargs tr)) = called tr @ [(args, kwargs)]
          \<and> queue_sends (snd (call E t args kwargs tr)) = queue_sends tr)
       \<and> (\<not> eager t \<and> \<not> EAGER E \<and> channel_error E = None
          \<and> get_task_description E t args (without_routing kwargs)
              (queue_name E (fst (resolve_queue E t (dict_get kwargs ''kuyruk_host'')
                                     (dict_get kwargs ''kuyruk_local'')))
                 (truthy (snd (resolve_queue E t (dict_get kwargs ''kuyruk_host'')
                                     (dict_get kwargs ''kuyruk_local''))))) = Inr desc
          \<longrightarrow>
            called (snd (call E t args kwargs tr)) = called tr
          \<and> queue_sends (snd (call E t args kwargs tr)) =
              queue_sends tr @
               [(fst (resolve_queue E t (dict_get kwargs ''kuyruk_host'')
                        (dict_get kwargs ''kuyruk_local'')),
                 truthy (snd (resolve_queue E t (dict_get kwargs ''kuyruk_host'')
                        (dict_get kwargs ''kuyruk_local''))),
                 desc)]
          \<and> map_of desc ''kwargs'' = Some (PyDict (without_routing kwargs)))"
  using call_eager_effects [OF assms] call_queued_effects [OF assms] description_kwargs
  by blast

theorem routing_keys_popped_when_queued_witness:
  "(\<forall>d. receivers quiet_env d = None)
   \<and> eager ((example_task returns_42)\<lparr>eager := True\<rparr>)
   \<and> called (snd (call quiet_env ((example_task returns_42)\<lparr>eager := True\<rparr>) [PyInt 1]
               [(''kuyruk_host'', PyStr ''h''), (''x'', PyInt 2)] []))
       = [([PyInt 1], [(''kuyruk_host'', PyStr ''h''), (''x'', PyInt 2)])]
   \<and> queue_sends (snd (call quiet_env ((example_task returns_42)\<lparr>eager := True\<rparr>) [PyInt 1]
               [(''kuyruk_host'', PyStr ''h''), (''x'', PyInt 2)] [])) = []
   \<and> \<not> eager (example_task returns_42) \<and> \<not> EAGER quiet_env \<and> channel_error quiet_env = None
   \<and> called (snd (call quiet_env (example_task returns_42) [PyInt 1]
               [(''kuyruk_host'', PyStr ''h''), (''x'', PyInt 2)] [])) = []
   \<and> queue_sends (snd (call quiet_env (example_task returns_42) [PyInt 1]
               [(''kuyruk_host'', PyStr ''h''), (''x'', PyInt 2)] []))
       = [(''kuyruk.h'', False,
           [(''id'', PyStr ''0f3a''), (''queue'', PyStr ''kuyruk.h''), (''args'', PyList [PyInt 1]),
            (''kwargs'', PyDict [(''x'', PyInt 2)]), (''module'', PyStr ''tasks''),
            (''function'', PyStr ''echo''), (''class'', PyNone), (''retry'', PyInt 0),
            (''sender_timestamp'', PyStr ''2013-01-01 00:00:00''),
            (''sender_hostname'', PyStr ''worker1''), (''sender_pid'', PyInt 4242),
            (''sender_cmd'', PyStr ''python app.py'')])]"
proof -
  let ?k = "[(''kuyruk_host'', PyStr ''h''), (''x'', PyInt 2)]"
  let ?d = "[(''id'', PyStr ''0f3a''), (''queue'', PyStr ''kuyruk.h''), (''args'', PyList [PyInt 1]),
            (''kwargs'', PyDict [(''x'', PyInt 2)]), (''module'', PyStr ''tasks''),
            (''function'', PyStr ''echo''), (''class'', PyNone), (''retry'', PyInt 0),
            (''sender_timestamp'', PyStr ''2013-01-01 00:00:00''),
            (''sender_hostname'', PyStr ''worker1''), (''sender_pid'', PyInt 4242),
            (''sender_cmd'', PyStr ''python app.py'')]"
  have q: "\<forall>d. receivers quiet_env d = None" by (simp add: quiet_env_def)
  have e: "eager ((example_task returns_42)\<lparr>eager := True\<rparr>)" by simp
  have n: "\<not> eager (example_task returns_42)" "\<not> EAGER quiet_env" "channel_error quiet_env = None"
    by (simp_all add: example_defs)
  have r: "resolve_queue quiet_env (example_task returns_42) (dict_get ?k ''kuyruk_host'')
             (dict_get ?k ''kuyruk_local'') = (''kuyruk.h'', PyBool False)"
    by (simp add: resolve_queue_def dict_get_def percent_s_def example_task_def)
  have w: "without_routing ?k = [(''x'', PyInt 2)]" by (simp add: without_routing_def)
  have d: "get_task_description quiet_env (example_task returns_42) [PyInt 1] (without_routing ?k)
              (queue_name quiet_env (fst (resolve_queue quiet_env (example_task returns_42)
                    (dict_get ?k ''kuyruk_host'') (dict_get ?k ''kuyruk_local'')))
                 (truthy (snd (resolve_queue quiet_env (example_task returns_42)
                    (dict_get ?k ''kuyruk_host'') (dict_get ?k ''kuyruk_local''))))) = Inr ?d"
    unfolding r w
    by (simp add: get_task_description_def replace_first_def class_name_def module_name_of_def
        example_defs)
  show ?thesis
    using q e n d
      routing_keys_popped_when_queued [OF q, where t = "(example_task returns_42)\<lparr>eager := True\<rparr>"
        and args = "[PyInt 1]" and kwargs = ?k and tr = "[]"]
      routing_keys_popped_when_queued [OF q, where t = "example_task returns_42"
        and args = "[PyInt 1]" and kwargs = ?k and tr = "[]" and desc = ?d]
    by (simp add: r called_Cons queue_sends_Cons)
qed

section \<open>Waiting for a reply\<close>

declare wait.simps [simp del]

lemma wait_done: "outcome st = Some r \<Longrightarrow> wait start timeout st evs = Some r"
  by (subst wait.simps) simp

lemma wait_Nil: "outcome st = None \<Longrightarrow> wait start timeout st [] = None"
  by (subst wait.simps) simp

lemma wait_Reply:
  "outcome st = None \<Longrightarrow>
   wait start timeout st (Reply d # rest) =
     (case process_message st d of
        Inl err \<Rightarrow> Some (Inl err)
      | Inr st' \<Rightarrow> wait start timeout st' rest)"
  by (subst wait.simps) simp

lemma wait_SliceTimeout:
  "outcome st = None \<Longrightarrow>
   wait start timeout st (SliceTimeout now # rest) =
     (if now - start > timeout then Some (Inl ResultTimeout) else wait start timeout st rest)"
  by (subst wait.simps) simp

lemma wait_SocketError:
  "outcome st = None \<Longrightarrow>
   wait start timeout st (SocketError errno # rest) =
     (if errno \<noteq> EINTR then Some (Inl (socket_error errno)) else wait start timeout st rest)"
  by (subst wait.simps) simp

lemma wait_Idle:
  "outcome st = None \<Longrightarrow> wait start timeout st (Idle # rest) = wait start timeout st rest"
  by (subst wait.simps) simp

lemma wait_skip:
  "outcome st = None \<Longrightarrow> list_all (harmless start timeout) pre \<Longrightarrow>
   wait start timeout st (pre @ evs) = wait start timeout st evs"
proof (induction pre)
  case Nil
  show ?case by simp
next
  case (Cons ev pre)
  then show ?case
    by (cases ev)
      (simp_all add: harmless_def wait_Idle wait_SliceTimeout wait_SocketError)
qed

text \<open>
  C7 (amended). A reply is a decoded object. Without a \<^verbatim>\<open>result\<close> key, whatever else
  it has, \<^verbatim>\<open>wait\<close> raises \<^verbatim>\<open>KeyError\<close>. With one, an \<^verbatim>\<open>exception\<close> payload that is
  true in a condition comes before the result: an object with a type, a value and a
  traceback makes \<^verbatim>\<open>wait\<close> raise \<^verbatim>\<open>RemoteException\<close> with these three values as
  they came; an object without one of the three raises the \<^verbatim>\<open>KeyError\<close> of the first
  key not found, and a payload that is not an object raises \<^verbatim>\<open>TypeError\<close>. When the
  payload is null, not there, or false in a condition in another way (an empty object, an
  empty string, zero), \<^verbatim>\<open>wait\<close> returns the result as it came.
\<close>

theorem wait_exception_precedence:
  assumes "outcome st = None"
  shows
   "(map_of reply ''result'' = None \<longrightarrow>
       wait start timeout st (Reply (PyDict reply) # rest) = Some (Inl (KeyError ''result'')))
    \<and> (map_of reply ''result'' = Some r \<and> dict_get reply ''exception'' = PyDict ex
        \<and> map_of ex ''type'' = Some ty \<and> map_of ex ''value'' = Some va
        \<and> map_of ex ''traceback'' = Some tb \<longrightarrow>
       wait start timeout st (Reply (PyDict reply) # rest)
         = Some (Inl (RemoteException ty va tb)))
    \<and> (map_of reply ''result'' = Some r \<and> \<not> truthy (dict_get reply ''exception'') \<longrightarrow>
       wait start timeout st (Reply (PyDict reply) # rest) = Some (Inr r))
    \<and> (map_of reply ''result'' = Some r \<and> dict_get reply ''exception'' = PyDict ex \<and> ex \<noteq> []
        \<and> map_of ex ''type'' = None \<longrightarrow>
       wait start timeout st (Reply (PyDict reply) # rest) = Some (Inl (KeyError ''type'')))
    \<and> (map_of reply ''result'' = Some r \<and> dict_get reply ''exception'' = PyDict ex
        \<and> map_of ex ''type'' = Some ty \<and> map_of ex ''value'' = None \<longrightarrow>
       wait start timeout st (Reply (PyDict reply) # rest) = Some (Inl (KeyError ''value'')))
    \<and> (map_of reply ''result'' = Some r \<and> dict_get reply ''exception'' = PyDict ex
        \<and> map_of ex ''type'' = Some ty \<and> map_of ex ''value'' = Some va
        \<and> map_of ex ''traceback'' = None \<longrightarrow>
       wait start timeout st (Reply (PyDict reply) # rest) = Some (Inl (KeyError ''traceback'')))
    \<and> (map_of reply ''result'' = Some r \<and> truthy (dict_get reply ''exception'')
        \<and> (\<forall>d. dict_get reply ''exception'' \<noteq> PyDict d) \<longrightarrow>
       wait start timeout st (Reply (PyDict reply) # rest) = Some (Inl TypeError))"
proof -
  have p: "map_of reply ''result'' = Some r \<Longrightarrow>
           wait start timeout st (Reply (PyDict reply) # rest) =
             wait start timeout (st\<lparr>result := Some r, exception := Some (dict_get reply ''exception'')\<rparr>) rest"
    for r
    using assms by (simp add: wait_Reply process_message_def)
  have n: "map_of reply ''result'' = None \<Longrightarrow>
       wait start timeout st (Reply (PyDict reply) # rest) = Some (Inl (KeyError ''result''))"
    using assms by (simp add: wait_Reply process_message_def)
  have t: "truthy (PyDict ex)" if "map_of ex k = Some v" for k v
    using that by auto
  show ?thesis
  proof (intro conjI impI)
    show "map_of reply ''result'' = None \<Longrightarrow>
       wait start timeout st (Reply (PyDict reply) # rest) = Some (Inl (KeyError ''result''))"
      by (rule n)
  next
    assume "map_of reply ''result'' = Some r \<and> dict_get reply ''exception'' = PyDict ex
        \<and> map_of ex ''type'' = Some ty \<and> map_of ex ''value'' = Some va
        \<and> map_of ex ''traceback'' = Some tb"
    then show "wait start timeout st (Reply (PyDict reply) # rest)
         = Some (Inl (RemoteException ty va tb))"
      using t [of "''type''" ty] by (simp add: p wait_done outcome_def)
  next
    assume "map_of reply ''result'' = Some r \<and> \<not> truthy (dict_get reply ''exception'')"
    then show "wait start timeout st (Reply (PyDict reply) # rest) = Some (Inr r)"
      by (simp add: p wait_done outcome_def)
  next
    assume "map_of reply ''result'' = Some r \<and> dict_get reply ''exception'' = PyDict ex \<and> ex \<noteq> []
        \<and> map_of ex ''type'' = None"
    then show "wait start timeout st (Reply (PyDict reply) # rest) = Some (Inl (KeyError ''type''))"
      by (simp add: p wait_done outcome_def)
  next
    assume "map_of reply ''result'' = Some r \<and> dict_get reply ''exception'' = PyDict ex
        \<and> map_of ex ''type'' = Some ty \<and> map_of ex ''value'' = None"
    then show "wait start timeout st (Reply (PyDict reply) # rest) = Some (Inl (KeyError ''value''))"
      using t [of "''type''" ty] by (simp add: p wait_done outcome_def)
  next
    assume "map_of reply ''result'' = Some r \<and> dict_get reply ''exception'' = PyDict ex
        \<and> map_of ex ''type'' = Some ty \<and> map_of ex ''value'' = Some va
        \<and> map_of ex ''traceback'' = None"
    then show "wait start timeout st (Reply (PyDict reply) # rest) = Some (Inl (KeyError ''traceback''))"
      using t [of "''type''" ty] by (simp add: p wait_done outcome_def)
  next
    assume a: "map_of reply ''result'' = Some r \<and> truthy (dict_get reply ''exception'')
        \<and> (\<forall>d. dict_get reply ''exception'' \<noteq> PyDict d)"
    then have "subscript (dict_get reply ''exception'') k = Inl TypeError" for k
      by (cases "dict_get reply ''exception''") simp_all
    with a show "wait start timeout st (Reply (PyDict reply) # rest) = Some (Inl TypeError)"
      by (simp add: p wait_done outcome_def)
  qed
qed

theorem wait_exception_precedence_witness:
  "outcome Result = None
   \<and> wait 0 5 Result
       [Idle, Reply (PyDict [(''result'', PyInt 42),
                             (''exception'', PyDict [(''type'', PyStr ''ValueError''),
                                                     (''value'', PyStr ''bad''),
                                                     (''traceback'', PyStr ''Traceback'')])])]
       = Some (Inl (RemoteException (PyStr ''ValueError'') (PyStr ''bad'') (PyStr ''Traceback'')))
   \<and> wait 0 5 Result [Idle, Reply (PyDict [(''result'', PyInt 42), (''exception'', PyNone)])]
       = Some (Inr (PyInt 42))
   \<and> wait 0 5 Result [Idle, Reply (PyDict [(''result'', PyInt 42)])] = Some (Inr (PyInt 42))
   \<and> wait 0 5 Result [Idle, Reply (PyDict [(''result'', PyInt 42), (''exception'', PyStr [])])]
       = Some (Inr (PyInt 42))
   \<and> wait 0 5 Result [Idle, Reply (PyDict [(''exception'', PyNone)])]
       = Some (Inl (KeyError ''result''))
   \<and> wait 0 5 Result
       [Idle, Reply (PyDict [(''result'', PyInt 42),
                             (''exception'', PyDict [(''type'', PyStr ''ValueError'')])])]
       = Some (Inl (KeyError ''value''))
   \<and> wait 0 5 Result [Idle, Reply (PyDict [(''result'', PyInt 42), (''exception'', PyStr ''bad'')])]
       = Some (Inl TypeError)"
proof -
  have o: "outcome Result = None" by (simp add: outcome_def Result_def)
  show ?thesis
    using o
      wait_exception_precedence [OF o, where reply = "[(''result'', PyInt 42),
          (''exception'', PyDict [(''type'', PyStr ''ValueError''), (''value'', PyStr ''bad''),
                                  (''traceback'', PyStr ''Traceback'')])]"
        and r = "PyInt 42"
        and ex = "[(''type'', PyStr ''ValueError''), (''value'', PyStr ''bad''),
                   (''traceback'', PyStr ''Traceback'')]"
        and ty = "PyStr ''ValueError''" and va = "PyStr ''bad''" and tb = "PyStr ''Traceback''"
        and start = 0 and timeout = 5 and rest = "[]"]
      wait_exception_precedence [OF o, where reply = "[(''result'', PyInt 42), (''exception'', PyNone)]"
        and r = "PyInt 42" and start = 0 and timeout = 5 and rest = "[]"]
      wait_exception_precedence [OF o, where reply = "[(''result'', PyInt 42)]"
        and r = "PyInt 42" and start = 0 and timeout = 5 and rest = "[]"]
      wait_exception_precedence [OF o, where reply = "[(''result'', PyInt 42), (''exception'', PyStr [])]"
        and r = "PyInt 42" and start = 0 and timeout = 5 and rest = "[]"]
      wait_exception_precedence [OF o, where reply = "[(''exception'', PyNone)]"
        and start = 0 and timeout = 5 and rest = "[]"]
      wait_exception_precedence [OF o, where reply = "[(''result'', PyInt 42),
          (''exception'', PyDict [(''type'', PyStr ''ValueError'')])]"
        and r = "PyInt 42" and ex = "[(''type'', PyStr ''ValueError'')]"
        and ty = "PyStr ''ValueError''" and start = 0 and timeout = 5 and rest = "[]"]
      wait_exception_precedence [OF o, where reply = "[(''result'', PyInt 42), (''exception'', PyStr ''bad'')]"
        and r = "PyInt 42" and start = 0 and timeout = 5 and rest = "[]"]
    by (simp add: wait_Idle dict_get_def)
qed

text \<open>
  C7 as stated fails: the payload \<^verbatim>\<open>{}\<close> is not null and \<^verbatim>\<open>wait\<close> returns the
  result, since the test is \<^verbatim>\<open>if self.exception:\<close>; and a reply that has an exception
  payload and no \<^verbatim>\<open>result\<close> key raises \<^verbatim>\<open>KeyError\<close>, not \<^verbatim>\<open>RemoteException\<close>.
\<close>

theorem wait_falsy_payload_counterexample:
  "wait 0 5 Result [Reply (PyDict [(''result'', PyInt 42), (''exception'', PyDict [])])]
     = Some (Inr (PyInt 42))
   \<and> wait 0 5 Result
       [Reply (PyDict [(''exception'', PyDict [(''type'', PyStr ''ValueError''),
                                               (''value'', PyStr ''bad''),
                                               (''traceback'', PyStr ''Traceback'')])])]
     = Some (Inl (KeyError ''result''))"
  by (simp add: wait_Reply wait_done outcome_def Result_def process_message_def dict_get_def)

text \<open>
  C8. While nothing has been received, \<^verbatim>\<open>wait\<close> goes on through calls that bring
  nothing, interrupted calls (\<^verbatim>\<open>EINTR\<close>) and slice timeouts within the deadline, and
  does not fail there. The next slice timeout raises \<^verbatim>\<open>ResultTimeout\<close> exactly when the
  time since the start is over the timeout; the next socket error is raised again unless
  it is \<^verbatim>\<open>EINTR\<close>, after which the receive is tried again.
\<close>

theorem wait_timeout_and_interrupts:
  "outcome st = None \<Longrightarrow> list_all (harmless start timeout) pre \<Longrightarrow>
     wait start timeout st pre = None
   \<and> wait start timeout st (pre @ SliceTimeout now # rest) =
       (if now - start > timeout then Some (Inl ResultTimeout)
        else wait start timeout st rest)
   \<and> wait start timeout st (pre @ SocketError errno # rest) =
       (if errno = EINTR then wait start timeout st rest
        else Some (Inl (socket_error errno)))"
  using wait_skip [of st start timeout pre "[]"]
    wait_skip [of st start timeout pre "SliceTimeout now # rest"]
    wait_skip [of st start timeout pre "SocketError errno # rest"]
  by (simp add: wait_Nil wait_SliceTimeout wait_SocketError)

theorem wait_timeout_and_interrupts_witness:
  "outcome Result = None
   \<and> list_all (harmless 100 2) [SliceTimeout 101, SocketError 4, Idle, SliceTimeout 102]
   \<and> wait 100 2 Result [SliceTimeout 101, SocketError 4, Idle, SliceTimeout 102] = None
   \<and> wait 100 2 Result [SliceTimeout 101, SocketError 4, Idle, SliceTimeout 102, SliceTimeout 103]
       = Some (Inl ResultTimeout)
   \<and> wait 100 2 Result [SliceTimeout 101, SocketError 4, Idle, SliceTimeout 102, SocketError 104]
       = Some (Inl (socket_error 104))"
proof -
  have o: "outcome Result = None" by (simp add: outcome_def Result_def)
  have h: "list_all (harmless 100 2) [SliceTimeout 101, SocketError 4, Idle, SliceTimeout 102]"
    by (simp add: harmless_def EINTR_def)
  show ?thesis
    using o h wait_timeout_and_interrupts [OF o h, of 103 "[]" 104]
    by (simp add: EINTR_def)
qed

end
